theory Spec2Isabelle
  imports
    Complex_Main
    "HOL-Library.AList"
    "HOL-Library.Char_ord"
    "HOL-Library.List_Lexorder"
    "HOL-Library.Multiset"
begin

section \<open>Python values and exceptions used by app.py\<close>

text \<open>
  The exception classes that the functions of app.py can meet.  \<open>OtherException\<close> stands
  for any further subclass of \<open>Exception\<close> raised by an external call (file I/O, the
  detection model); its argument is the class name.  Exceptions outside \<open>Exception\<close>
  (\<open>KeyboardInterrupt\<close>, \<open>SystemExit\<close>) are not modelled.
\<close>

datatype exn =
    IndexError
  | TypeError
  | ValueError
  | OverflowError
  | FileNotFoundError
  | JSONDecodeError
  | OtherException string

text \<open>
  A class identifier as Python may hand it to \<open>get_part_name_from_id\<close>: an \<open>int\<close>, a
  \<open>float\<close> (a finite float is given by its exact value; \<open>nan\<close> and the two
  infinities are separate), a \<open>str\<close>, or \<open>None\<close>.  The request handler passes what
  \<open>box.cls.item()\<close> returns, a float.
\<close>

datatype class_id =
    IntId int
  | FloatId rat
  | NanId
  | InfId bool
  | StrId string
  | NoneId

subsection \<open>The builtin \<open>int(...)\<close>\<close>

text \<open>
  \<open>int(s)\<close> for an ASCII \<open>str\<close>: the blanks tab, newline, vertical tab, form feed,
  carriage return and space are stripped at both ends, one sign may precede the digits,
  and single underscores may stand between digits.  A literal of more than 4300 digits
  is refused (the default of \<open>sys.get_int_max_str_digits()\<close>).  Anything else is a
  \<open>ValueError\<close>.  Strings with non-ASCII characters are not modelled.
\<close>

definition py_isspace :: "char \<Rightarrow> bool" where
  "py_isspace c = (let n = (of_char c :: nat) in (9 \<le> n \<and> n \<le> 13) \<or> n = 32)"

definition py_strip :: "string \<Rightarrow> string" where
  "py_strip s = rev (dropWhile py_isspace (rev (dropWhile py_isspace s)))"

definition is_digit :: "char \<Rightarrow> bool" where
  "is_digit c = (let n = (of_char c :: nat) in 48 \<le> n \<and> n \<le> 57)"

definition digit_val :: "char \<Rightarrow> int" where
  "digit_val c = int (of_char c) - 48"

fun int_literal :: "bool \<Rightarrow> int \<Rightarrow> string \<Rightarrow> int option" where
  "int_literal prev_digit acc [] = (if prev_digit then Some acc else None)"
| "int_literal prev_digit acc (c # cs) =
     (if is_digit c then int_literal True (10 * acc + digit_val c) cs
      else if c = CHR ''_'' \<and> prev_digit then int_literal False acc cs
      else None)"

definition max_str_digits :: nat where
  "max_str_digits = 4300"

definition digits_literal :: "string \<Rightarrow> int option" where
  "digits_literal body =
     (if max_str_digits < length (filter is_digit body) then None
      else int_literal False 0 body)"

definition py_int_of_str :: "string \<Rightarrow> int option" where
  "py_int_of_str s =
     (case py_strip s of
        [] \<Rightarrow> None
      | c # cs \<Rightarrow>
          if c = CHR ''-'' then map_option uminus (digits_literal cs)
          else if c = CHR ''+'' then digits_literal cs
          else digits_literal (c # cs))"

text \<open>\<open>int(x)\<close> for a finite float truncates towards zero.\<close>

definition py_trunc :: "rat \<Rightarrow> int" where
  "py_trunc q = (if 0 \<le> q then \<lfloor>q\<rfloor> else \<lceil>q\<rceil>)"

fun py_int :: "class_id \<Rightarrow> exn + int" where
  "py_int (IntId i) = Inr i"
| "py_int (FloatId q) = Inr (py_trunc q)"
| "py_int NanId = Inl ValueError"
| "py_int (InfId negative) = Inl OverflowError"
| "py_int (StrId s) = (case py_int_of_str s of None \<Rightarrow> Inl ValueError | Some i \<Rightarrow> Inr i)"
| "py_int NoneId = Inl TypeError"

subsection \<open>List indexing\<close>

text \<open>
  \<open>xs[i]\<close>: a negative index counts from the end; outside \<open>-len(xs) .. len(xs)-1\<close> it
  raises \<open>IndexError\<close>.
\<close>

definition py_getitem :: "'a list \<Rightarrow> int \<Rightarrow> exn + 'a" where
  "py_getitem xs i =
     (if 0 \<le> i \<and> i < int (length xs) then Inr (xs ! nat i)
      else if i < 0 \<and> - int (length xs) \<le> i then Inr (xs ! nat (int (length xs) + i))
      else Inl IndexError)"

section \<open>Utilities of app.py\<close>

subsection \<open>\<open>get_part_name_from_id\<close>\<close>

definition class_names :: "string list" where
  "class_names =
     [''Bonnet'', ''Bumper'', ''Dickey'', ''Door'', ''Fender'', ''Light'', ''Windshield'']"

text \<open>
  The \<open>try\<close> body \<open>class_names[int(class_id)]\<close>, and the function with its handler
  \<open>except (IndexError, TypeError): return None\<close>.  Every other exception leaves the
  function.
\<close>

definition lookup_class_name :: "class_id \<Rightarrow> exn + string" where
  "lookup_class_name class_id =
     (case py_int class_id of
        Inl e \<Rightarrow> Inl e
      | Inr i \<Rightarrow> py_getitem class_names i)"

definition get_part_name_from_id :: "class_id \<Rightarrow> exn + string option" where
  "get_part_name_from_id class_id =
     (case lookup_class_name class_id of
        Inr name \<Rightarrow> Inr (Some name)
      | Inl e \<Rightarrow> if e = IndexError \<or> e = TypeError then Inr None else Inl e)"

subsection \<open>Global state\<close>

text \<open>
  A Python \<open>dict\<close> is an association list in insertion order; \<open>d[k]\<close> and \<open>k in d\<close>
  read it with \<open>map_of\<close>, and \<open>d[k] = v\<close> is \<open>AList.update\<close>, which overwrites in
  place or appends.  Counts are Python \<open>int\<close>s.  Unit prices are the numbers of the JSON
  file; they are modelled for integer prices, where \<open>price * count\<close> is exact (a
  non-integer JSON number is a float, and its product is a floating-point one, which is
  not modelled).
\<close>

type_synonym model_prices = "(string \<times> int) list"
type_synonym price_table = "(string \<times> (string \<times> model_prices) list) list"
type_synonym class_counts = "(class_id \<times> int) list"

text \<open>The value stored under a part name: \<open>{'count': .., 'price': .., 'total': ..}\<close>.\<close>

record part_entry =
  count_val :: int
  price_val :: int
  total_val :: int

type_synonym breakdown = "(string \<times> part_entry) list"

text \<open>What the \<open>print\<close> calls write, one constructor per message of app.py.\<close>

datatype log_msg =
    PricingLoaded string
  | PriceFileNotFound string
  | PriceFileParseError string
  | NoPriceData string string
  | NoPartPrice string string
  | PredictionError string

datatype model_handle = YOLO string

record py_state =
  CAR_PRICES :: price_table
  AVAILABLE_BRANDS :: "string list"
  MODEL :: "model_handle option"
  stdout :: "log_msg list"

definition print_msg :: "log_msg \<Rightarrow> py_state \<Rightarrow> py_state" where
  "print_msg m s = s\<lparr>stdout := stdout s @ [m]\<rparr>"

definition PRICE_JSON_PATH :: string where
  "PRICE_JSON_PATH = ''car_parts_prices.json''"

text \<open>The module-level initial values \<open>CAR_PRICES = {}\<close>, \<open>AVAILABLE_BRANDS = []\<close>,
  \<open>MODEL = None\<close>.\<close>

definition initial_state :: py_state where
  "initial_state = \<lparr>CAR_PRICES = [], AVAILABLE_BRANDS = [], MODEL = None, stdout = []\<rparr>"

subsection \<open>\<open>load_data\<close>\<close>

text \<open>
  The argument \<open>file\<close> is the outcome of \<open>open(PRICE_JSON_PATH)\<close> followed by
  \<open>json.load\<close>: the parsed table, or the exception raised.  The two \<open>except\<close> clauses
  print and return; any other exception leaves the function (for instance the
  \<open>UnicodeDecodeError\<close> of a file with undecodable bytes, or the \<open>RecursionError\<close> of
  too deep a nesting).  The parsed value is taken to be a JSON object of the shape of
  the table; a JSON text of another shape is not modelled.
\<close>

definition load_data :: "exn + price_table \<Rightarrow> py_state \<Rightarrow> exn option \<times> py_state" where
  "load_data file s =
     (case file of
        Inr table \<Rightarrow>
          (None, print_msg (PricingLoaded PRICE_JSON_PATH)
                   (s\<lparr>CAR_PRICES := table, AVAILABLE_BRANDS := sort (map fst table)\<rparr>))
      | Inl e \<Rightarrow>
          if e = FileNotFoundError then (None, print_msg (PriceFileNotFound PRICE_JSON_PATH) s)
          else if e = JSONDecodeError then (None, print_msg (PriceFileParseError PRICE_JSON_PATH) s)
          else (Some e, s))"

subsection \<open>\<open>calculate_prices\<close>\<close>

text \<open>
  The frame of one call: the globals, the dictionary passed as \<open>class_counts\<close>, and the
  local dictionary \<open>prices\<close>.
\<close>

record calc_frame =
  globals :: py_state
  class_counts_arg :: class_counts
  prices :: breakdown

text \<open>
  The \<open>for\<close> loop over \<open>class_counts.items()\<close>.  An exception of
  \<open>get_part_name_from_id\<close> is not handled here and ends the loop.
\<close>

fun price_loop ::
  "string \<Rightarrow> model_prices \<Rightarrow> (class_id \<times> int) list \<Rightarrow> calc_frame \<Rightarrow> exn option \<times> calc_frame"
where
  "price_loop car_model model_prices [] fr = (None, fr)"
| "price_loop car_model model_prices ((class_id, cnt) # rest) fr =
     (case get_part_name_from_id class_id of
        Inl e \<Rightarrow> (Some e, fr)
      | Inr None \<Rightarrow> price_loop car_model model_prices rest fr
      | Inr (Some part_name) \<Rightarrow>
          (case (if part_name \<noteq> [] then map_of model_prices part_name else None) of
             Some price_per_part \<Rightarrow>
               price_loop car_model model_prices rest
                 (fr\<lparr>prices :=
                      AList.update part_name
                        \<lparr>count_val = cnt, price_val = price_per_part,
                         total_val = price_per_part * cnt\<rparr>
                        (prices fr)\<rparr>)
           | None \<Rightarrow>
               if part_name \<noteq> [] then
                 price_loop car_model model_prices rest
                   (fr\<lparr>globals := print_msg (NoPartPrice part_name car_model) (globals fr)\<rparr>)
               else price_loop car_model model_prices rest fr))"

definition calculate_prices ::
  "py_state \<Rightarrow> string \<Rightarrow> string \<Rightarrow> class_counts \<Rightarrow> (exn + breakdown) \<times> py_state \<times> class_counts"
where
  "calculate_prices s car_brand car_model class_counts =
     (case (case map_of (CAR_PRICES s) car_brand of
              None \<Rightarrow> None
            | Some models \<Rightarrow> map_of models car_model) of
        None \<Rightarrow> (Inr [], print_msg (NoPriceData car_brand car_model) s, class_counts)
      | Some model_prices \<Rightarrow>
          (case price_loop car_model model_prices class_counts
                  \<lparr>globals = s, class_counts_arg = class_counts, prices = []\<rparr> of
             (Some e, fr) \<Rightarrow> (Inl e, globals fr, class_counts_arg fr)
           | (None, fr) \<Rightarrow> (Inr (prices fr), globals fr, class_counts_arg fr)))"

section \<open>The request handler \<open>predict_damage\<close>\<close>

subsection \<open>Requests, responses, files\<close>

datatype http_method = GET | POST

text \<open>
  An uploaded file (\<open>request.files.get('image')\<close>): its client filename and its bytes.  A
  \<open>FileStorage\<close> is truthy when its filename is not empty.
\<close>

record file_storage =
  filename :: string
  stream :: string

record request =
  req_method :: http_method
  files_image :: "file_storage option"
  form_car_brand :: "string option"
  form_car_model :: "string option"

text \<open>The file system: the bytes stored under each path.\<close>

type_synonym file_system = "string \<rightharpoonup> string"

text \<open>The context handed to \<open>predict.html\<close> and to \<open>estimate.html\<close>.\<close>

record predict_page =
  brands :: "string list"
  prices_ctx :: price_table
  error :: "string option"

record estimate_page =
  original_image :: string
  detected_image :: string
  part_prices :: breakdown
  car_info_brand :: string
  car_info_model :: string

datatype response =
    Redirect string
  | PredictHtml predict_page
  | EstimateHtml estimate_page
  | HttpError nat

text \<open>
  A view that returns rendered text answers with status 200; a redirect with 302; an
  \<open>HTTPException\<close> raised in the view is answered with its own status code.
\<close>

fun status_code :: "response \<Rightarrow> nat" where
  "status_code (Redirect url) = 302"
| "status_code (PredictHtml page) = 200"
| "status_code (EstimateHtml page) = 200"
| "status_code (HttpError code) = code"

text \<open>
  One element of the list the model call returns: the class identifiers of its boxes
  (\<open>box.cls.item()\<close> for each box) and the image that \<open>result.save\<close> writes.  The object
  and its \<open>boxes\<close> are falsy when there is no box.
\<close>

record detection_result =
  boxes :: "class_id list"
  annotated :: string

text \<open>
  What the outside world does during one request: the library function
  \<open>secure_filename\<close>, the value of \<open>os.urandom(8).hex()\<close>, the text \<open>str(e)\<close> of an
  exception, and for each external call whether it raises: \<open>file.save\<close>, the model call,
  \<open>result.save\<close>, \<open>shutil.copyfile\<close>.  A writing call that raises comes with what it
  has left under its target path: nothing (\<open>None\<close>) or the bytes of a partial file.  The
  model call writes nothing under the upload folder.
\<close>

record env =
  secure_filename :: "string \<Rightarrow> string"
  urandom_hex :: string
  exn_str :: "exn \<Rightarrow> string"
  file_save_raises :: "(exn \<times> string option) option"
  model_call :: "exn + detection_result list"
  result_save_raises :: "(exn \<times> string option) option"
  copyfile_raises :: "(exn \<times> string option) option"

definition partial_write :: "file_system \<Rightarrow> string \<Rightarrow> string option \<Rightarrow> file_system" where
  "partial_write fs path left =
     (case left of None \<Rightarrow> fs | Some bytes \<Rightarrow> fs(path \<mapsto> bytes))"

subsection \<open>String helpers\<close>

definition py_lower_char :: "char \<Rightarrow> char" where
  "py_lower_char c =
     (let n = (of_char c :: nat) in if 65 \<le> n \<and> n \<le> 90 then char_of (n + 32) else c)"

definition py_lower :: "string \<Rightarrow> string" where
  "py_lower s = map py_lower_char s"

definition endswith :: "string \<Rightarrow> string \<Rightarrow> bool" where
  "endswith s suf = (length suf \<le> length s \<and> drop (length s - length suf) s = suf)"

definition allowed_extension :: "string \<Rightarrow> bool" where
  "allowed_extension fname =
     (let l = py_lower fname
      in endswith l ''.png'' \<or> endswith l ''.jpg'' \<or> endswith l ''.jpeg'')"

definition UPLOAD_FOLDER :: string where
  "UPLOAD_FOLDER = ''static/uploads''"

text \<open>\<open>os.path.join\<close> of a directory and a relative name.\<close>

definition path_join :: "string \<Rightarrow> string \<Rightarrow> string" where
  "path_join dir name = dir @ ''/'' @ name"

text \<open>\<open>url_for('static', filename=...)\<close>, and the file the static route serves for a URL.\<close>

definition url_for_static :: "string \<Rightarrow> string" where
  "url_for_static fname = ''/static/'' @ fname"

definition static_file :: "file_system \<Rightarrow> string \<Rightarrow> string option" where
  "static_file fs url = fs (drop 1 url)"

text \<open>
  Equality of two dictionary keys that are different objects: numbers are compared by
  value, so \<open>0 == 0.0\<close>, and \<open>nan\<close> equals nothing, not even another \<open>nan\<close>.
\<close>

fun py_eq :: "class_id \<Rightarrow> class_id \<Rightarrow> bool" where
  "py_eq (IntId i) (IntId j) = (i = j)"
| "py_eq (IntId i) (FloatId q) = (of_int i = q)"
| "py_eq (FloatId q) (IntId i) = (of_int i = q)"
| "py_eq (FloatId p) (FloatId q) = (p = q)"
| "py_eq (InfId a) (InfId b) = (a = b)"
| "py_eq (StrId s) (StrId t) = (s = t)"
| "py_eq NoneId NoneId = True"
| "py_eq a b = False"

text \<open>
  \<open>Counter(class_ids)\<close>: keys in order of first occurrence; an element equal to a key
  raises that key's count, any other element becomes a new key with count 1.
\<close>

fun counter_add :: "class_counts \<Rightarrow> class_id \<Rightarrow> class_counts" where
  "counter_add [] k = [(k, 1)]"
| "counter_add ((k', n) # rest) k =
     (if py_eq k' k then (k', n + 1) # rest else (k', n) # counter_add rest k)"

definition Counter :: "class_id list \<Rightarrow> class_counts" where
  "Counter ids = foldl counter_add [] ids"

text \<open>\<open>shutil.copyfile(src, dst)\<close>.\<close>

definition copyfile :: "file_system \<Rightarrow> string \<Rightarrow> string \<Rightarrow> exn + file_system" where
  "copyfile fs src dst =
     (if src = dst then Inl (OtherException ''SameFileError'')
      else case fs src of
             None \<Rightarrow> Inl FileNotFoundError
           | Some bytes \<Rightarrow> Inr (fs(dst \<mapsto> bytes)))"

subsection \<open>The \<open>try\<close> block\<close>

text \<open>
  The body of the \<open>try\<close>: save the upload, call the model, then either save the annotated
  image and price the detections, or copy the original.  \<open>Inl e\<close> is an exception leaving
  the body, together with the files and the state as they are at that moment.
\<close>

definition analysis ::
  "env \<Rightarrow> py_state \<Rightarrow> file_system \<Rightarrow> file_storage \<Rightarrow> string \<Rightarrow> string \<Rightarrow> string \<Rightarrow> string
     \<Rightarrow> (exn + response) \<times> file_system \<times> py_state"
where
  "analysis ev s fs file car_brand car_model original_filename detected_filename =
     (let original_image_path = path_join UPLOAD_FOLDER original_filename;
          detected_image_path = path_join UPLOAD_FOLDER detected_filename
      in case file_save_raises ev of
           Some (e, left) \<Rightarrow> (Inl e, partial_write fs original_image_path left, s)
         | None \<Rightarrow>
             (let fs1 = fs(original_image_path \<mapsto> stream file)
              in case model_call ev of
                   Inl e \<Rightarrow> (Inl e, fs1, s)
                 | Inr results \<Rightarrow>
                     (let result = (case results of [] \<Rightarrow> None | r # rs \<Rightarrow> Some r)
                      in case (case result of
                                 None \<Rightarrow> None
                               | Some r \<Rightarrow> if boxes r \<noteq> [] then Some r else None) of
                           Some r \<Rightarrow>
                             (let class_counts = Counter (boxes r)
                              in case result_save_raises ev of
                                   Some (e, left) \<Rightarrow>
                                     (Inl e, partial_write fs1 detected_image_path left, s)
                                 | None \<Rightarrow>
                                     (let fs2 = fs1(detected_image_path \<mapsto> annotated r)
                                      in case calculate_prices s car_brand car_model class_counts of
                                           (Inl e, s', cc) \<Rightarrow> (Inl e, fs2, s')
                                         | (Inr part_prices_v, s', cc) \<Rightarrow>
                                             (Inr (EstimateHtml
                                                \<lparr>original_image =
                                                   url_for_static (''uploads/'' @ original_filename),
                                                 detected_image =
                                                   url_for_static (''uploads/'' @ detected_filename),
                                                 part_prices = part_prices_v,
                                                 car_info_brand = car_brand,
                                                 car_info_model = car_model\<rparr>), fs2, s')))
                         | None \<Rightarrow>
                             (case copyfile_raises ev of
                                Some (e, left) \<Rightarrow>
                                  (Inl e, partial_write fs1 detected_image_path left, s)
                              | None \<Rightarrow>
                                  (case copyfile fs1 original_image_path detected_image_path of
                                     Inl e \<Rightarrow> (Inl e, fs1, s)
                                   | Inr fs2 \<Rightarrow>
                                       (Inr (EstimateHtml
                                          \<lparr>original_image =
                                             url_for_static (''uploads/'' @ original_filename),
                                           detected_image =
                                             url_for_static (''uploads/'' @ detected_filename),
                                           part_prices = [],
                                           car_info_brand = car_brand,
                                           car_info_model = car_model\<rparr>), fs2, s))))))"

subsection \<open>The view function\<close>

text \<open>\<open>template_data = {'brands': AVAILABLE_BRANDS, 'prices': CAR_PRICES}\<close>; the key
  \<open>error\<close> is absent until a branch sets it.\<close>

definition template_data_of :: "py_state \<Rightarrow> predict_page" where
  "template_data_of s = \<lparr>brands = AVAILABLE_BRANDS s, prices_ctx = CAR_PRICES s, error = None\<rparr>"

definition error_page :: "predict_page \<Rightarrow> string \<Rightarrow> response" where
  "error_page template_data msg = PredictHtml (template_data\<lparr>error := Some msg\<rparr>)"

definition predict_damage ::
  "env \<Rightarrow> request \<Rightarrow> py_state \<Rightarrow> file_system \<Rightarrow> response \<times> file_system \<times> py_state"
where
  "predict_damage ev req s fs =
     (let template_data = template_data_of s
      in if req_method req = POST then
           if MODEL s = None then
             (error_page template_data
                ''The YOLO model failed to load. Cannot perform damage analysis.'', fs, s)
           else
             (case (files_image req, form_car_brand req, form_car_model req) of
                (Some file, Some car_brand, Some car_model) \<Rightarrow>
                  if filename file = [] \<or> car_brand = [] \<or> car_model = [] then
                    (error_page template_data ''Please select a car and upload an image.'', fs, s)
                  else if filename file = [] then
                    (error_page template_data ''Please upload an image.'', fs, s)
                  else
                    (let fname = secure_filename ev (filename file)
                     in if \<not> allowed_extension fname then
                          (error_page template_data
                             ''Invalid file type. Please upload a PNG, JPG, or JPEG image.'', fs, s)
                        else
                          (let unique_id = urandom_hex ev;
                               original_filename = ''original_'' @ unique_id @ ''_'' @ fname;
                               detected_filename = ''detected_'' @ unique_id @ ''_'' @ fname
                           in case analysis ev s fs file car_brand car_model
                                     original_filename detected_filename of
                                (Inr page, fs', s') \<Rightarrow> (page, fs', s')
                              | (Inl e, fs', s') \<Rightarrow>
                                  (error_page template_data
                                     (''An unexpected error occurred during analysis: ''
                                        @ exn_str ev e),
                                   fs', print_msg (PredictionError (exn_str ev e)) s')))
              | _ \<Rightarrow>
                  (error_page template_data ''Please select a car and upload an image.'', fs, s))
         else (PredictHtml template_data, fs, s))"

subsection \<open>The size limit\<close>

text \<open>
  \<open>app.config['MAX_CONTENT_LENGTH'] = 16 * 1024 * 1024\<close>.  The definition
  \<open>predict_damage\<close> above takes the request as \<open>request.files\<close> and \<open>request.form\<close>
  present it.  Reading \<open>request.files\<close>, the first statement after the check of
  \<open>MODEL\<close>, parses the body, and for a body longer than the limit it raises
  \<open>RequestEntityTooLarge\<close>, outside the \<open>try\<close> block, which the framework answers with
  status 413.  \<open>predict_route\<close> is the view with that step: a request with its content
  length.
\<close>

definition MAX_CONTENT_LENGTH :: nat where
  "MAX_CONTENT_LENGTH = 16 * 1024 * 1024"

record http_request =
  content_length :: nat
  parsed :: request

definition predict_route ::
  "env \<Rightarrow> http_request \<Rightarrow> py_state \<Rightarrow> file_system \<Rightarrow> response \<times> file_system \<times> py_state"
where
  "predict_route ev hreq s fs =
     (if req_method (parsed hreq) = POST \<and> MODEL s \<noteq> None \<and>
         MAX_CONTENT_LENGTH < content_length hreq
      then (HttpError 413, fs, s)
      else predict_damage ev (parsed hreq) s fs)"

section \<open>Notions used to state the properties\<close>


text \<open>
  The class index that a class identifier denotes when it is one a detection model
  yields: a whole number from 0 on, as an \<open>int\<close> or as a \<open>float\<close>.
\<close>

fun class_index :: "class_id \<Rightarrow> nat option" where
  "class_index (IntId i) = (if 0 \<le> i then Some (nat i) else None)"
| "class_index (FloatId q) = (if 0 \<le> q \<and> of_int \<lfloor>q\<rfloor> = q then Some (nat \<lfloor>q\<rfloor>) else None)"
| "class_index c = None"

text \<open>
  A class-count mapping as it is derived from a detection result: every key denotes a
  class index, and no two keys denote the same one (they would be one key of the
  dictionary).
\<close>

definition detector_counts :: "class_counts \<Rightarrow> bool" where
  "detector_counts cc =
     (list_all (\<lambda>(c, n). class_index c \<noteq> None) cc \<and>
      distinct (map (\<lambda>(c, n). class_index c) cc))"



text \<open>The names under which the handler stores the two images of a request.\<close>

definition original_name :: "env \<Rightarrow> file_storage \<Rightarrow> string" where
  "original_name ev file =
     ''original_'' @ urandom_hex ev @ ''_'' @ secure_filename ev (filename file)"

definition detected_name :: "env \<Rightarrow> file_storage \<Rightarrow> string" where
  "detected_name ev file =
     ''detected_'' @ urandom_hex ev @ ''_'' @ secure_filename ev (filename file)"

definition original_path :: "env \<Rightarrow> file_storage \<Rightarrow> string" where
  "original_path ev file = path_join UPLOAD_FOLDER (original_name ev file)"

definition detected_path :: "env \<Rightarrow> file_storage \<Rightarrow> string" where
  "detected_path ev file = path_join UPLOAD_FOLDER (detected_name ev file)"

text \<open>The detection run found nothing: the model returned no result, or a first result
  without boxes.\<close>

definition no_detections :: "detection_result list \<Rightarrow> bool" where
  "no_detections results = (case results of [] \<Rightarrow> True | r # rs \<Rightarrow> boxes r = [])"

text \<open>
  A POST request that passes every validation step: the model is loaded, the image, the
  brand and the model are present and not empty, and the sanitized filename has an
  allowed extension.
\<close>

definition validated ::
  "env \<Rightarrow> request \<Rightarrow> py_state \<Rightarrow> file_storage \<Rightarrow> string \<Rightarrow> string \<Rightarrow> bool"
where
  "validated ev req s file car_brand car_model =
     (req_method req = POST \<and> MODEL s \<noteq> None \<and>
      files_image req = Some file \<and> form_car_brand req = Some car_brand \<and>
      form_car_model req = Some car_model \<and>
      filename file \<noteq> [] \<and> car_brand \<noteq> [] \<and> car_model \<noteq> [] \<and>
      allowed_extension (secure_filename ev (filename file)))"

text \<open>
  The answer and the state after the \<open>except\<close> clause has handled the exception \<open>e\<close>.
\<close>

definition unexpected_error :: "env \<Rightarrow> py_state \<Rightarrow> exn \<Rightarrow> response" where
  "unexpected_error ev s e =
     PredictHtml
       \<lparr>brands = AVAILABLE_BRANDS s, prices_ctx = CAR_PRICES s,
        error = Some (''An unexpected error occurred during analysis: '' @ exn_str ev e)\<rparr>"

definition logged_error :: "env \<Rightarrow> exn \<Rightarrow> py_state \<Rightarrow> py_state" where
  "logged_error ev e s = s\<lparr>stdout := stdout s @ [PredictionError (exn_str ev e)]\<rparr>"

subsection \<open>Concrete inputs\<close>

definition demo_table :: price_table where
  "demo_table = [(''Tata'', [(''Nexon'', [(''Bonnet'', 100), (''Light'', 50)])])]"

definition demo_state :: py_state where
  "demo_state = initial_state\<lparr>CAR_PRICES := demo_table, MODEL := Some (YOLO ''yolov8n.pt'')\<rparr>"

definition demo_env :: env where
  "demo_env =
     \<lparr>secure_filename = (\<lambda>name. name), urandom_hex = ''00ff00ff00ff00ff'',
      exn_str = (\<lambda>e. ''boom''), file_save_raises = None,
      model_call = Inr [\<lparr>boxes = [], annotated = ''ANNOTATED''\<rparr>],
      result_save_raises = None, copyfile_raises = None\<rparr>"

definition demo_request :: "string \<Rightarrow> request" where
  "demo_request name =
     \<lparr>req_method = POST, files_image = Some \<lparr>filename = name, stream = ''IMAGE''\<rparr>,
      form_car_brand = Some ''Tata'', form_car_model = Some ''Nexon''\<rparr>"

text \<open>The same world, but the model call raises; and one where a box has the class \<open>nan\<close>.\<close>

definition demo_exn_str :: "exn \<Rightarrow> string" where
  "demo_exn_str e =
     (if e = ValueError then ''cannot convert float NaN to integer'' else ''CUDA out of memory'')"

definition failing_env :: env where
  "failing_env =
     demo_env\<lparr>exn_str := demo_exn_str, model_call := Inl (OtherException ''RuntimeError'')\<rparr>"

definition nan_env :: env where
  "nan_env =
     demo_env\<lparr>exn_str := demo_exn_str,
       model_call := Inr [\<lparr>boxes = [FloatId 0, NanId], annotated = ''ANNOTATED''\<rparr>]\<rparr>"

text \<open>A world in which \<open>result.save\<close> raises after it has written part of the image.\<close>

definition disk_full_env :: env where
  "disk_full_env =
     demo_env\<lparr>exn_str := (\<lambda>e. ''No space left on device''),
       model_call := Inr [\<lparr>boxes = [FloatId 1], annotated = ''ANNOTATED''\<rparr>],
       result_save_raises := Some (OtherException ''OSError'', Some ''ANNO'')\<rparr>"

text \<open>Requests with a body within the limit and over it.\<close>

definition small_upload :: "string \<Rightarrow> http_request" where
  "small_upload name = \<lparr>content_length = 2048, parsed = demo_request name\<rparr>"

definition oversized_upload :: "string \<Rightarrow> http_request" where
  "oversized_upload name = \<lparr>content_length = 17 * 1024 * 1024, parsed = demo_request name\<rparr>"

definition demo_file :: file_storage where
  "demo_file = \<lparr>filename = ''car.JPG'', stream = ''IMAGE''\<rparr>"

definition demo_counts :: class_counts where
  "demo_counts = [(FloatId 0, 2), (FloatId 3, 1), (FloatId 9, 4), (FloatId 5, 1)]"

section \<open>Properties of part-name resolution\<close>

lemma py_getitem_in_set: "py_getitem xs i = Inr x \<Longrightarrow> x \<in> set xs"
  by (auto simp: py_getitem_def split: if_splits)

lemma get_part_name_in_class_names:
  "get_part_name_from_id c = Inr (Some p) \<Longrightarrow> p \<in> set class_names"
  by (auto simp: get_part_name_from_id_def lookup_class_name_def
      split: sum.splits if_splits dest: py_getitem_in_set)



lemma get_part_name_out_of_range:
  "py_int c = Inr i \<Longrightarrow> i < - 7 \<or> 7 \<le> i \<Longrightarrow> get_part_name_from_id c = Inr None"
  by (auto simp: get_part_name_from_id_def lookup_class_name_def py_getitem_def class_names_def)

lemma get_part_name_type_error:
  "py_int c = Inl TypeError \<Longrightarrow> get_part_name_from_id c = Inr None"
  by (simp add: get_part_name_from_id_def lookup_class_name_def)

lemma get_part_name_none: "get_part_name_from_id NoneId = Inr None"
  by (simp add: get_part_name_type_error)

lemma get_part_name_0: "get_part_name_from_id (IntId 0) = Inr (Some ''Bonnet'')"
  by (simp add: get_part_name_from_id_def lookup_class_name_def py_getitem_def class_names_def)

lemma get_part_name_5: "get_part_name_from_id (IntId 5) = Inr (Some ''Light'')"
  by (simp add: get_part_name_from_id_def lookup_class_name_def py_getitem_def class_names_def)






text \<open>
  Claim C2.  The claim says that resolution returns \<open>None\<close>, and never raises, for every
  class identifier outside the index range and for every non-numeric one.  The handler
  lists \<open>IndexError\<close> and \<open>TypeError\<close> only: on the string \<open>'abc'\<close> and on the float
  \<open>nan\<close> the conversion \<open>int(class_id)\<close> raises \<open>ValueError\<close>, on an infinite float
  \<open>OverflowError\<close>, and the exception leaves \<open>get_part_name_from_id\<close>.
\<close>

theorem get_part_name_from_id_raises_on_non_numeric:
  "get_part_name_from_id (StrId ''abc'') = Inl ValueError \<and>
   get_part_name_from_id NanId = Inl ValueError \<and>
   get_part_name_from_id (InfId False) = Inl OverflowError"
  by (simp add: get_part_name_from_id_def lookup_class_name_def py_int_of_str_def
      py_strip_def py_isspace_def is_digit_def digits_literal_def max_str_digits_def)

section \<open>Properties of \<open>calculate_prices\<close>\<close>

subsection \<open>Invariants of the loop\<close>

lemma price_loop_frame:
  "price_loop m mp cc fr = (r, fr') \<Longrightarrow>
     CAR_PRICES (globals fr') = CAR_PRICES (globals fr) \<and>
     AVAILABLE_BRANDS (globals fr') = AVAILABLE_BRANDS (globals fr) \<and>
     MODEL (globals fr') = MODEL (globals fr) \<and>
     class_counts_arg fr' = class_counts_arg fr"
proof (induction cc arbitrary: fr)
  case Nil
  then show ?case by simp
next
  case (Cons a cc)
  obtain c n where a: "a = (c, n)" by (cases a)
  from Cons.prems show ?case
    unfolding a
    by (auto simp: print_msg_def split: sum.splits option.splits if_splits dest!: Cons.IH)
qed

lemma update_keys_subset:
  "fst ` set (AList.update k v al) \<subseteq> insert k (fst ` set al)"
  by (simp add: dom_update)

lemma price_loop_keys:
  "price_loop m mp cc fr = (r, fr') \<Longrightarrow>
     fst ` set (prices fr') \<subseteq> fst ` set (prices fr) \<union> set class_names"
proof (induction cc arbitrary: fr)
  case Nil
  then show ?case by simp
next
  case (Cons a cc)
  obtain c n where a: "a = (c, n)" by (cases a)
  show ?case
  proof (cases "get_part_name_from_id c")
    case (Inl e)
    with Cons.prems show ?thesis unfolding a by auto
  next
    case (Inr po)
    show ?thesis
    proof (cases po)
      case None
      with Inr Cons.prems Cons.IH show ?thesis unfolding a by auto
    next
      case (Some p)
      have pin: "p \<in> set class_names"
        using Inr Some get_part_name_in_class_names by simp
      have "\<exists>fr1. price_loop m mp cc fr1 = (r, fr') \<and>
              fst ` set (prices fr1) \<subseteq> insert p (fst ` set (prices fr))"
      proof (cases "if p \<noteq> [] then map_of mp p else None")
        case None
        with Cons.prems Inr Some show ?thesis
          unfolding a by (cases "p \<noteq> []") (auto intro!: exI)
      next
        case (Some u)
        with Cons.prems Inr \<open>po = Some p\<close> have
          "price_loop m mp cc
             (fr\<lparr>prices := AList.update p
                    \<lparr>count_val = n, price_val = u, total_val = u * n\<rparr> (prices fr)\<rparr>) = (r, fr')"
          unfolding a by simp
        then show ?thesis
          using update_keys_subset[of p _ "prices fr"] by (intro exI conjI) (assumption, simp)
      qed
      then obtain fr1 where
        step: "price_loop m mp cc fr1 = (r, fr')" and
        keys1: "fst ` set (prices fr1) \<subseteq> insert p (fst ` set (prices fr))"
        by blast
      from Cons.IH[OF step] keys1 pin show ?thesis by blast
    qed
  qed
qed


subsection \<open>Unknown brand or model\<close>

text \<open>
  Claim C3.  When the brand is not a key of the price table, or the model is not a key of
  the brand's entry, \<open>calculate_prices\<close> returns the empty breakdown without raising,
  whatever the class-count mapping is; it prints one warning and changes nothing else.
\<close>

theorem calculate_prices_unknown_brand_or_model:
  "map_of (CAR_PRICES s) b = None \<or>
     (\<exists>ms. map_of (CAR_PRICES s) b = Some ms \<and> map_of ms m = None) \<Longrightarrow>
   calculate_prices s b m cc = (Inr [], print_msg (NoPriceData b m) s, cc)"
  by (auto simp: calculate_prices_def)

theorem calculate_prices_unknown_brand_or_model_witness:
  "calculate_prices demo_state ''Tata'' ''Punch'' [(IntId 0, 2), (StrId ''abc'', 1)] =
     (Inr [], print_msg (NoPriceData ''Tata'' ''Punch'') demo_state,
      [(IntId 0, 2), (StrId ''abc'', 1)]) \<and>
   calculate_prices demo_state ''Audi'' ''Nexon'' [(IntId 0, 2)] =
     (Inr [], print_msg (NoPriceData ''Audi'' ''Nexon'') demo_state, [(IntId 0, 2)])"
proof -
  have 1: "map_of (CAR_PRICES demo_state) ''Tata'' = None \<or>
     (\<exists>ms. map_of (CAR_PRICES demo_state) ''Tata'' = Some ms \<and> map_of ms ''Punch'' = None)"
    by (simp add: demo_state_def demo_table_def initial_state_def)
  have 2: "map_of (CAR_PRICES demo_state) ''Audi'' = None \<or>
     (\<exists>ms. map_of (CAR_PRICES demo_state) ''Audi'' = Some ms \<and> map_of ms ''Nexon'' = None)"
    by (simp add: demo_state_def demo_table_def initial_state_def)
  show ?thesis using calculate_prices_unknown_brand_or_model[OF 1] calculate_prices_unknown_brand_or_model[OF 2] by simp
qed

subsection \<open>The example of the specification\<close>

text \<open>
  Claim C4.  With class counts \<open>{0: 2, 5: 1}\<close> and a price map for the brand and model
  that gives 100 for Bonnet and 50 for Light, the result is exactly
  \<open>{Bonnet: {count 2, price 100, total 200}, Light: {count 1, price 50, total 50}}\<close>, in
  that order.
\<close>

theorem calculate_prices_bonnet_light_example:
  assumes "map_of (CAR_PRICES s) b = Some ms" and "map_of ms m = Some mp"
    and "map_of mp ''Bonnet'' = Some 100" and "map_of mp ''Light'' = Some 50"
  shows "calculate_prices s b m [(IntId 0, 2), (IntId 5, 1)] =
     (Inr [(''Bonnet'', \<lparr>count_val = 2, price_val = 100, total_val = 200\<rparr>),
           (''Light'', \<lparr>count_val = 1, price_val = 50, total_val = 50\<rparr>)],
      s, [(IntId 0, 2), (IntId 5, 1)])"
  using assms by (simp add: calculate_prices_def get_part_name_0 get_part_name_5)

theorem calculate_prices_bonnet_light_example_witness:
  "calculate_prices demo_state ''Tata'' ''Nexon'' [(IntId 0, 2), (IntId 5, 1)] =
     (Inr [(''Bonnet'', \<lparr>count_val = 2, price_val = 100, total_val = 200\<rparr>),
           (''Light'', \<lparr>count_val = 1, price_val = 50, total_val = 50\<rparr>)],
      demo_state, [(IntId 0, 2), (IntId 5, 1)])"
  by (rule calculate_prices_bonnet_light_example[where ms = "[(''Nexon'', [(''Bonnet'', 100), (''Light'', 50)])]"
        and mp = "[(''Bonnet'', 100), (''Light'', 50)]"])
     (simp_all add: demo_state_def demo_table_def initial_state_def)

subsection \<open>The breakdown\<close>









text \<open>
  The mapping that the handler passes, \<open>Counter\<close> of the class identifiers of the boxes,
  is such a mapping whenever every box carries a class index.
\<close>

lemma whole_floor_eq:
  fixes p q :: rat
  assumes "of_int \<lfloor>p\<rfloor> = p" and "of_int \<lfloor>q\<rfloor> = q"
  shows "p = q \<longleftrightarrow> \<lfloor>p\<rfloor> = \<lfloor>q\<rfloor>"
  using assms by metis

lemma py_eq_index:
  assumes "class_index a = Some i" and "class_index b = Some j"
  shows "py_eq a b \<longleftrightarrow> i = j"
proof (cases a)
  case (IntId x)
  note a = this
  show ?thesis
  proof (cases b)
    case (IntId y)
    with a assms show ?thesis by (auto split: if_splits)
  next
    case (FloatId q)
    with a assms have x: "0 \<le> x" "i = nat x" and q: "0 \<le> q" "of_int \<lfloor>q\<rfloor> = q" "j = nat \<lfloor>q\<rfloor>"
      by (auto split: if_splits)
    have "of_int x = q \<longleftrightarrow> x = \<lfloor>q\<rfloor>"
      using q(2) by (metis floor_of_int)
    moreover have "0 \<le> \<lfloor>q\<rfloor>" using q(1) by simp
    ultimately show ?thesis using a FloatId x q by auto
  qed (use assms in simp_all)
next
  case (FloatId p)
  note a = this
  with assms have p: "0 \<le> p" "of_int \<lfloor>p\<rfloor> = p" "i = nat \<lfloor>p\<rfloor>"
    by (auto split: if_splits)
  have p0: "0 \<le> \<lfloor>p\<rfloor>" using p(1) by simp
  show ?thesis
  proof (cases b)
    case (IntId y)
    with assms have y: "0 \<le> y" "j = nat y" by (auto split: if_splits)
    have "of_int y = p \<longleftrightarrow> y = \<lfloor>p\<rfloor>"
      using p(2) by (metis floor_of_int)
    then show ?thesis using a IntId y p p0 by auto
  next
    case (FloatId q)
    with assms have q: "0 \<le> q" "of_int \<lfloor>q\<rfloor> = q" "j = nat \<lfloor>q\<rfloor>"
      by (auto split: if_splits)
    have q0: "0 \<le> \<lfloor>q\<rfloor>" using q(1) by simp
    have "p = q \<longleftrightarrow> \<lfloor>p\<rfloor> = \<lfloor>q\<rfloor>"
      using p(2) q(2) by (rule whole_floor_eq)
    then show ?thesis using a FloatId p q p0 q0 by auto
  qed (use assms in simp_all)
qed (use assms in simp_all)

lemma counter_add_indices:
  assumes "list_all (\<lambda>(c, n). class_index c \<noteq> None) acc" and "class_index k = Some j"
  shows "map (\<lambda>(c, n). class_index c) (counter_add acc k) =
     (if Some j \<in> set (map (\<lambda>(c, n). class_index c) acc)
      then map (\<lambda>(c, n). class_index c) acc
      else map (\<lambda>(c, n). class_index c) acc @ [Some j])"
  using assms(1)
proof (induction acc)
  case Nil
  then show ?case by (simp add: assms(2))
next
  case (Cons a acc)
  obtain c n where a: "a = (c, n)" by (cases a)
  from Cons.prems obtain i where i: "class_index c = Some i"
    and rest: "list_all (\<lambda>(c, n). class_index c \<noteq> None) acc"
    unfolding a by auto
  have eq: "py_eq c k \<longleftrightarrow> i = j"
    using i assms(2) by (rule py_eq_index)
  show ?case
  proof (cases "i = j")
    case True
    then show ?thesis unfolding a by (simp add: eq i)
  next
    case False
    with Cons.IH[OF rest] show ?thesis unfolding a by (simp add: eq i)
  qed
qed

lemma counter_add_detector:
  assumes "detector_counts acc" and "class_index k \<noteq> None"
  shows "detector_counts (counter_add acc k)"
proof -
  from assms(2) obtain j where j: "class_index k = Some j" by auto
  from assms(1) have all: "list_all (\<lambda>(c, n). class_index c \<noteq> None) acc"
    and dist: "distinct (map (\<lambda>(c, n). class_index c) acc)"
    by (simp_all add: detector_counts_def)
  have "list_all (\<lambda>x. x \<noteq> None) (map (\<lambda>(c, n). class_index c) (counter_add acc k))"
    unfolding counter_add_indices[OF all j] using all j
    by (auto simp: list_all_iff)
  then have "list_all (\<lambda>(c, n). class_index c \<noteq> None) (counter_add acc k)"
    by (auto simp: list_all_iff)
  moreover have "distinct (map (\<lambda>(c, n). class_index c) (counter_add acc k))"
    unfolding counter_add_indices[OF all j] using dist by simp
  ultimately show ?thesis by (simp add: detector_counts_def)
qed

lemma foldl_counter_add_detector:
  "detector_counts acc \<Longrightarrow> list_all (\<lambda>c. class_index c \<noteq> None) ids \<Longrightarrow>
     detector_counts (foldl counter_add acc ids)"
  by (induction ids arbitrary: acc) (simp_all add: counter_add_detector)

lemma Counter_detector:
  "list_all (\<lambda>c. class_index c \<noteq> None) ids \<Longrightarrow> detector_counts (Counter ids)"
  unfolding Counter_def by (rule foldl_counter_add_detector) (simp_all add: detector_counts_def)

subsection \<open>Frame\<close>

text \<open>
  Claim C10.  A call of \<open>calculate_prices\<close> leaves the price table, the brand list, the
  model handle and the class-count mapping as they were, whether it returns or raises,
  and every key of a returned breakdown is one of the seven part names.
\<close>

theorem calculate_prices_frame:
  "case calculate_prices s b m cc of
     (r, s', cc') \<Rightarrow>
       CAR_PRICES s' = CAR_PRICES s \<and> AVAILABLE_BRANDS s' = AVAILABLE_BRANDS s \<and>
       MODEL s' = MODEL s \<and> cc' = cc \<and>
       (\<forall>bd. r = Inr bd \<longrightarrow> fst ` set bd \<subseteq> set class_names)"
proof (cases "case map_of (CAR_PRICES s) b of None \<Rightarrow> None | Some ms \<Rightarrow> map_of ms m")
  case None
  then show ?thesis by (simp add: calculate_prices_def print_msg_def)
next
  case (Some mp)
  let ?fr = "\<lparr>globals = s, class_counts_arg = cc, prices = []\<rparr>"
  obtain r fr' where loop: "price_loop m mp cc ?fr = (r, fr')"
    by (cases "price_loop m mp cc ?fr")
  from price_loop_frame[OF loop] price_loop_keys[OF loop] Some loop
  show ?thesis
    by (cases r) (simp_all add: calculate_prices_def)
qed

theorem calculate_prices_frame_witness:
  "\<exists>bd s'. calculate_prices demo_state ''Tata'' ''Nexon'' demo_counts = (Inr bd, s', demo_counts) \<and>
     CAR_PRICES s' = demo_table \<and> fst ` set bd \<subseteq> set class_names"
proof -
  obtain r s' cc' where
    res: "calculate_prices demo_state ''Tata'' ''Nexon'' demo_counts = (r, s', cc')"
    by (cases "calculate_prices demo_state ''Tata'' ''Nexon'' demo_counts")
  have "\<not> isl r"
    using res
    by (auto simp: calculate_prices_def demo_state_def demo_table_def initial_state_def
        demo_counts_def get_part_name_from_id_def lookup_class_name_def py_getitem_def
        class_names_def py_trunc_def print_msg_def)
  then obtain bd where r: "r = Inr bd" by (cases r) auto
  from calculate_prices_frame[where s = demo_state and b = "''Tata''" and m = "''Nexon''"
      and cc = demo_counts] res r
  have "CAR_PRICES s' = CAR_PRICES demo_state" "cc' = demo_counts"
    "fst ` set bd \<subseteq> set class_names"
    by simp_all
  with res r show ?thesis
    by (simp add: demo_state_def initial_state_def)
qed

section \<open>Properties of \<open>load_data\<close>\<close>

text \<open>
  For the two exception classes that \<open>load_data\<close> names, it returns normally, prints one
  error message and leaves the price table and the brand list as they were; with the
  empty table of the module start, every later call of \<open>calculate_prices\<close> returns the
  empty breakdown.
\<close>

lemma load_data_caught_errors:
  assumes "e = FileNotFoundError \<or> e = JSONDecodeError"
  shows "\<exists>s'. load_data (Inl e) s = (None, s') \<and>
           CAR_PRICES s' = CAR_PRICES s \<and> AVAILABLE_BRANDS s' = AVAILABLE_BRANDS s \<and>
           (\<exists>msg. stdout s' = stdout s @ [msg] \<and>
              (msg = PriceFileNotFound PRICE_JSON_PATH \<or> msg = PriceFileParseError PRICE_JSON_PATH)) \<and>
           (CAR_PRICES s = [] \<longrightarrow>
              (\<forall>s'' b m cc. CAR_PRICES s'' = CAR_PRICES s' \<longrightarrow>
                 fst (calculate_prices s'' b m cc) = Inr []))"
  using assms by (auto simp: load_data_def print_msg_def calculate_prices_def)

text \<open>
  Claim C8.  The claim says that a missing or malformed price file makes \<open>load_data\<close>
  log an error and leave the price table empty.  \<open>load_data\<close> handles
  \<open>FileNotFoundError\<close> and \<open>json.JSONDecodeError\<close> only.  A malformed file can make
  \<open>json.load\<close> raise another exception: \<open>UnicodeDecodeError\<close> for bytes that do not
  decode, \<open>RecursionError\<close> for too deep a nesting.  Such an exception leaves
  \<open>load_data\<close>, and nothing is logged.
\<close>

theorem load_data_malformed_file_raises:
  "load_data (Inl (OtherException ''UnicodeDecodeError'')) initial_state =
     (Some (OtherException ''UnicodeDecodeError''), initial_state) \<and>
   load_data (Inl (OtherException ''RecursionError'')) initial_state =
     (Some (OtherException ''RecursionError''), initial_state) \<and>
   stdout initial_state = []"
  by (simp add: load_data_def initial_state_def)

text \<open>
  Claim C9.  After \<open>load_data\<close> has read a table, \<open>AVAILABLE_BRANDS\<close> is the sorted list
  of the top-level keys of \<open>CAR_PRICES\<close>: it is sorted and has exactly the keys, each as
  often as the key list has it.
\<close>

theorem load_data_available_brands_sorted:
  "case load_data (Inr table) s of
     (r, s') \<Rightarrow>
       r = None \<and> CAR_PRICES s' = table \<and>
       AVAILABLE_BRANDS s' = sort (map fst (CAR_PRICES s')) \<and>
       sorted (AVAILABLE_BRANDS s') \<and>
       mset (AVAILABLE_BRANDS s') = mset (map fst (CAR_PRICES s'))"
  by (simp add: load_data_def print_msg_def)

section \<open>Properties of \<open>predict_damage\<close>\<close>

lemma image_paths_differ:
  "path_join UPLOAD_FOLDER (original_name ev file) \<noteq> path_join UPLOAD_FOLDER (detected_name ev file)"
  by (simp add: path_join_def original_name_def detected_name_def)

lemma paths_differ: "original_path ev file \<noteq> detected_path ev file"
  by (simp add: original_path_def detected_path_def image_paths_differ)

lemma predict_damage_validated:
  assumes "validated ev req s file b m"
  shows "predict_damage ev req s fs =
     (case analysis ev s fs file b m (original_name ev file) (detected_name ev file) of
        (Inr page, fs', s') \<Rightarrow> (page, fs', s')
      | (Inl e, fs', s') \<Rightarrow> (unexpected_error ev s e, fs', logged_error ev e s'))"
  using assms
  by (auto simp: validated_def predict_damage_def original_name_def detected_name_def
      unexpected_error_def logged_error_def error_page_def template_data_of_def print_msg_def
      Let_def split: prod.splits sum.splits)

lemma gif_not_allowed: "\<not> allowed_extension ''photo.GIF''"
  by code_simp

lemma jpg_allowed: "allowed_extension ''car.JPG''"
  by code_simp

lemma predict_damage_bad_extension:
  assumes "req_method req = POST" and "files_image req = Some file"
    and "\<not> allowed_extension (secure_filename ev (filename file))"
  shows "\<exists>msg. predict_damage ev req s fs =
           (PredictHtml \<lparr>brands = AVAILABLE_BRANDS s, prices_ctx = CAR_PRICES s, error = Some msg\<rparr>,
            fs, s) \<and>
           (MODEL s \<noteq> None \<and> filename file \<noteq> [] \<and>
            (\<exists>b. form_car_brand req = Some b \<and> b \<noteq> []) \<and>
            (\<exists>m. form_car_model req = Some m \<and> m \<noteq> []) \<longrightarrow>
            msg = ''Invalid file type. Please upload a PNG, JPG, or JPEG image.'')"
  using assms
  by (auto simp: predict_damage_def error_page_def template_data_of_def Let_def
      split: option.splits)

subsection \<open>Validation of the extension\<close>

text \<open>
  Claim C5, as amended.  A POST request with an uploaded file whose sanitized filename
  does not end in \<open>.png\<close>, \<open>.jpg\<close> or \<open>.jpeg\<close>, letter case ignored, and whose body is
  within \<open>MAX_CONTENT_LENGTH\<close> (or that arrives while no model is loaded) is answered with
  the upload form carrying an error message, with status 200; when the earlier checks
  pass the message is the one about the file type.  A request over the limit, with a
  model loaded, is answered with status 413 instead.  In every case no file is written
  and the state does not change.
\<close>

theorem predict_route_rejects_bad_extension:
  assumes "req_method (parsed hreq) = POST" and "files_image (parsed hreq) = Some file"
    and "\<not> allowed_extension (secure_filename ev (filename file))"
  shows "(content_length hreq \<le> MAX_CONTENT_LENGTH \<or> MODEL s = None \<longrightarrow>
           (\<exists>msg. predict_route ev hreq s fs =
              (PredictHtml
                 \<lparr>brands = AVAILABLE_BRANDS s, prices_ctx = CAR_PRICES s, error = Some msg\<rparr>,
               fs, s) \<and>
              status_code (fst (predict_route ev hreq s fs)) = 200 \<and>
              (MODEL s \<noteq> None \<and> filename file \<noteq> [] \<and>
               (\<exists>b. form_car_brand (parsed hreq) = Some b \<and> b \<noteq> []) \<and>
               (\<exists>m. form_car_model (parsed hreq) = Some m \<and> m \<noteq> []) \<longrightarrow>
               msg = ''Invalid file type. Please upload a PNG, JPG, or JPEG image.''))) \<and>
         (MAX_CONTENT_LENGTH < content_length hreq \<and> MODEL s \<noteq> None \<longrightarrow>
            predict_route ev hreq s fs = (HttpError 413, fs, s) \<and>
            status_code (fst (predict_route ev hreq s fs)) = 413) \<and>
         snd (predict_route ev hreq s fs) = (fs, s)"
proof -
  from predict_damage_bad_extension[OF assms, of s fs] obtain msg where
    pd: "predict_damage ev (parsed hreq) s fs =
           (PredictHtml \<lparr>brands = AVAILABLE_BRANDS s, prices_ctx = CAR_PRICES s, error = Some msg\<rparr>,
            fs, s)"
    and msg: "MODEL s \<noteq> None \<and> filename file \<noteq> [] \<and>
            (\<exists>b. form_car_brand (parsed hreq) = Some b \<and> b \<noteq> []) \<and>
            (\<exists>m. form_car_model (parsed hreq) = Some m \<and> m \<noteq> []) \<longrightarrow>
            msg = ''Invalid file type. Please upload a PNG, JPG, or JPEG image.''"
    by blast
  have small: "content_length hreq \<le> MAX_CONTENT_LENGTH \<or> MODEL s = None \<Longrightarrow>
      predict_route ev hreq s fs = predict_damage ev (parsed hreq) s fs"
    by (auto simp: predict_route_def)
  have large: "MAX_CONTENT_LENGTH < content_length hreq \<and> MODEL s \<noteq> None \<Longrightarrow>
      predict_route ev hreq s fs = (HttpError 413, fs, s)"
    using assms(1) by (simp add: predict_route_def)
  have snd: "snd (predict_route ev hreq s fs) = (fs, s)"
    using pd by (simp add: predict_route_def)
  show ?thesis
  proof (intro conjI impI)
    assume c: "content_length hreq \<le> MAX_CONTENT_LENGTH \<or> MODEL s = None"
    show "\<exists>msg. predict_route ev hreq s fs =
              (PredictHtml
                 \<lparr>brands = AVAILABLE_BRANDS s, prices_ctx = CAR_PRICES s, error = Some msg\<rparr>,
               fs, s) \<and>
              status_code (fst (predict_route ev hreq s fs)) = 200 \<and>
              (MODEL s \<noteq> None \<and> filename file \<noteq> [] \<and>
               (\<exists>b. form_car_brand (parsed hreq) = Some b \<and> b \<noteq> []) \<and>
               (\<exists>m. form_car_model (parsed hreq) = Some m \<and> m \<noteq> []) \<longrightarrow>
               msg = ''Invalid file type. Please upload a PNG, JPG, or JPEG image.'')"
      using small[OF c] pd msg by (intro exI[of _ msg]) simp
  next
    assume c: "MAX_CONTENT_LENGTH < content_length hreq \<and> MODEL s \<noteq> None"
    from large[OF c] show "predict_route ev hreq s fs = (HttpError 413, fs, s)" .
    from large[OF c] show "status_code (fst (predict_route ev hreq s fs)) = 413" by simp
  next
    show "snd (predict_route ev hreq s fs) = (fs, s)" by (rule snd)
  qed
qed

theorem predict_route_rejects_bad_extension_witness:
  "predict_route demo_env (small_upload ''photo.GIF'') demo_state Map.empty =
     (PredictHtml
        \<lparr>brands = [], prices_ctx = demo_table,
         error = Some ''Invalid file type. Please upload a PNG, JPG, or JPEG image.''\<rparr>,
      Map.empty, demo_state) \<and>
   status_code (fst (predict_route demo_env (small_upload ''photo.GIF'') demo_state Map.empty)) = 200"
proof -
  let ?file = "\<lparr>filename = ''photo.GIF'', stream = ''IMAGE''\<rparr>"
  have 1: "req_method (parsed (small_upload ''photo.GIF'')) = POST"
    and 2: "files_image (parsed (small_upload ''photo.GIF'')) = Some ?file"
    by (simp_all add: small_upload_def demo_request_def)
  have 3: "\<not> allowed_extension (secure_filename demo_env (filename ?file))"
    by (simp add: demo_env_def gif_not_allowed)
  have 4: "content_length (small_upload ''photo.GIF'') \<le> MAX_CONTENT_LENGTH \<or>
      MODEL demo_state = None"
    by (simp add: small_upload_def MAX_CONTENT_LENGTH_def)
  have 5: "MODEL demo_state \<noteq> None \<and> filename ?file \<noteq> [] \<and>
      (\<exists>b. form_car_brand (parsed (small_upload ''photo.GIF'')) = Some b \<and> b \<noteq> []) \<and>
      (\<exists>m. form_car_model (parsed (small_upload ''photo.GIF'')) = Some m \<and> m \<noteq> [])"
    by (simp add: small_upload_def demo_request_def demo_state_def initial_state_def)
  from predict_route_rejects_bad_extension[OF 1 2 3, of demo_state Map.empty] 4 5
  obtain msg where
    "predict_route demo_env (small_upload ''photo.GIF'') demo_state Map.empty =
       (PredictHtml
          \<lparr>brands = AVAILABLE_BRANDS demo_state, prices_ctx = CAR_PRICES demo_state,
           error = Some msg\<rparr>, Map.empty, demo_state)"
    "status_code (fst (predict_route demo_env (small_upload ''photo.GIF'') demo_state Map.empty)) = 200"
    "msg = ''Invalid file type. Please upload a PNG, JPG, or JPEG image.''"
    by blast
  then show ?thesis
    by (simp add: demo_state_def initial_state_def)
qed

text \<open>
  The claim as stated, the form with status 200 for every such POST upload, fails for
  \<open>photo.GIF\<close> in a body of 17 MiB: the answer is 413.
\<close>

theorem predict_route_oversized_upload_counterexample:
  "req_method (parsed (oversized_upload ''photo.GIF'')) = POST \<and>
   files_image (parsed (oversized_upload ''photo.GIF'')) =
     Some \<lparr>filename = ''photo.GIF'', stream = ''IMAGE''\<rparr> \<and>
   \<not> allowed_extension (secure_filename demo_env ''photo.GIF'') \<and>
   predict_route demo_env (oversized_upload ''photo.GIF'') demo_state Map.empty =
     (HttpError 413, Map.empty, demo_state) \<and>
   status_code (HttpError 413) = 413"
  by (simp add: oversized_upload_def demo_request_def demo_env_def gif_not_allowed
      predict_route_def demo_state_def initial_state_def MAX_CONTENT_LENGTH_def)

subsection \<open>The failure boundary\<close>

lemma raise_in_file_save:
  assumes "validated ev req s file b m" and "file_save_raises ev = Some (e, left)"
  shows "predict_damage ev req s fs =
     (unexpected_error ev s e, partial_write fs (original_path ev file) left, logged_error ev e s)"
  using assms(2)
  by (simp add: predict_damage_validated[OF assms(1)] analysis_def original_path_def)

lemma raise_in_model_call:
  assumes "validated ev req s file b m" and "file_save_raises ev = None"
    and "model_call ev = Inl e"
  shows "predict_damage ev req s fs =
     (unexpected_error ev s e, fs(original_path ev file \<mapsto> stream file), logged_error ev e s)"
  using assms(2,3)
  by (simp add: predict_damage_validated[OF assms(1)] analysis_def original_path_def)

lemma raise_in_result_save:
  assumes "validated ev req s file b m" and "file_save_raises ev = None"
    and "model_call ev = Inr (r # rs)" and "boxes r \<noteq> []"
    and "result_save_raises ev = Some (e, left)"
  shows "predict_damage ev req s fs =
     (unexpected_error ev s e,
      partial_write (fs(original_path ev file \<mapsto> stream file)) (detected_path ev file) left,
      logged_error ev e s)"
  using assms(2-)
  by (simp add: predict_damage_validated[OF assms(1)] analysis_def original_path_def
      detected_path_def)

lemma raise_in_calculate_prices:
  assumes "validated ev req s file b m" and "file_save_raises ev = None"
    and "model_call ev = Inr (r # rs)" and "boxes r \<noteq> []" and "result_save_raises ev = None"
    and "calculate_prices s b m (Counter (boxes r)) = (Inl e, s1, cc)"
  shows "predict_damage ev req s fs =
     (unexpected_error ev s e,
      fs(original_path ev file \<mapsto> stream file, detected_path ev file \<mapsto> annotated r),
      logged_error ev e s1)"
  using assms(2-)
  by (simp add: predict_damage_validated[OF assms(1)] analysis_def original_path_def
      detected_path_def)

lemma raise_in_copyfile:
  assumes "validated ev req s file b m" and "file_save_raises ev = None"
    and "model_call ev = Inr results" and "no_detections results"
    and "copyfile_raises ev = Some (e, left)"
  shows "predict_damage ev req s fs =
     (unexpected_error ev s e,
      partial_write (fs(original_path ev file \<mapsto> stream file)) (detected_path ev file) left,
      logged_error ev e s)"
  using assms(2-)
  by (auto simp: predict_damage_validated[OF assms(1)] analysis_def original_path_def
      detected_path_def no_detections_def split: list.splits)

lemma partial_write_other:
  "path' \<noteq> path \<Longrightarrow> partial_write fs path left path' = fs path'"
  by (simp add: partial_write_def split: option.splits)

lemma analysis_keeps_original:
  assumes "file_save_raises ev = None"
    and "analysis ev s fs file b m (original_name ev file) (detected_name ev file) = (r, fs', s')"
  shows "fs' (original_path ev file) = Some (stream file)"
  using assms paths_differ[of ev "file"]
  by (auto simp: analysis_def Let_def original_path_def detected_path_def copyfile_def
      partial_write_other
      split: sum.splits option.splits list.splits if_splits prod.splits)

lemma analysis_outcome:
  assumes "analysis ev s fs file b m on dn = (r, fs', s')"
  shows "(\<exists>e. r = Inl e) \<or> (\<exists>page. r = Inr (EstimateHtml page))"
  using assms
  by (auto simp: analysis_def Let_def
      split: sum.splits option.splits list.splits if_splits prod.splits)

text \<open>
  Claim C6.  For a POST request that passes validation, an exception raised by
  \<open>file.save\<close>, by the model call, by \<open>result.save\<close>, by \<open>calculate_prices\<close> or by
  \<open>shutil.copyfile\<close> is caught by the one \<open>except Exception\<close> clause: the answer is the
  upload form whose error is \<open>An unexpected error occurred during analysis: \<close> followed by
  the text of the exception, the same text is printed, and the files are left as they
  are at the moment of the exception: the saved original stays, and so does the
  annotated image or whatever a failing call has written.  Every answer is the estimate
  page or such an error page, and once \<open>file.save\<close> has succeeded the original file is
  there in either case.
\<close>

theorem predict_damage_exception_boundary:
  assumes "validated ev req s file b m"
  shows "(\<forall>e left. file_save_raises ev = Some (e, left) \<longrightarrow>
            predict_damage ev req s fs =
              (PredictHtml
                 \<lparr>brands = AVAILABLE_BRANDS s, prices_ctx = CAR_PRICES s,
                  error = Some (''An unexpected error occurred during analysis: ''
                                  @ exn_str ev e)\<rparr>,
               partial_write fs (original_path ev file) left,
               s\<lparr>stdout := stdout s @ [PredictionError (exn_str ev e)]\<rparr>)) \<and>
         (\<forall>e. file_save_raises ev = None \<and> model_call ev = Inl e \<longrightarrow>
            predict_damage ev req s fs =
              (PredictHtml
                 \<lparr>brands = AVAILABLE_BRANDS s, prices_ctx = CAR_PRICES s,
                  error = Some (''An unexpected error occurred during analysis: ''
                                  @ exn_str ev e)\<rparr>,
               fs(original_path ev file \<mapsto> stream file),
               s\<lparr>stdout := stdout s @ [PredictionError (exn_str ev e)]\<rparr>)) \<and>
         (\<forall>e left r rs. file_save_raises ev = None \<and> model_call ev = Inr (r # rs) \<and>
              boxes r \<noteq> [] \<and> result_save_raises ev = Some (e, left) \<longrightarrow>
            predict_damage ev req s fs =
              (PredictHtml
                 \<lparr>brands = AVAILABLE_BRANDS s, prices_ctx = CAR_PRICES s,
                  error = Some (''An unexpected error occurred during analysis: ''
                                  @ exn_str ev e)\<rparr>,
               partial_write (fs(original_path ev file \<mapsto> stream file))
                 (detected_path ev file) left,
               s\<lparr>stdout := stdout s @ [PredictionError (exn_str ev e)]\<rparr>)) \<and>
         (\<forall>e r rs s1 cc. file_save_raises ev = None \<and> model_call ev = Inr (r # rs) \<and>
              boxes r \<noteq> [] \<and> result_save_raises ev = None \<and>
              calculate_prices s b m (Counter (boxes r)) = (Inl e, s1, cc) \<longrightarrow>
            predict_damage ev req s fs =
              (PredictHtml
                 \<lparr>brands = AVAILABLE_BRANDS s, prices_ctx = CAR_PRICES s,
                  error = Some (''An unexpected error occurred during analysis: ''
                                  @ exn_str ev e)\<rparr>,
               fs(original_path ev file \<mapsto> stream file, detected_path ev file \<mapsto> annotated r),
               s1\<lparr>stdout := stdout s1 @ [PredictionError (exn_str ev e)]\<rparr>)) \<and>
         (\<forall>e left results. file_save_raises ev = None \<and> model_call ev = Inr results \<and>
              no_detections results \<and> copyfile_raises ev = Some (e, left) \<longrightarrow>
            predict_damage ev req s fs =
              (PredictHtml
                 \<lparr>brands = AVAILABLE_BRANDS s, prices_ctx = CAR_PRICES s,
                  error = Some (''An unexpected error occurred during analysis: ''
                                  @ exn_str ev e)\<rparr>,
               partial_write (fs(original_path ev file \<mapsto> stream file))
                 (detected_path ev file) left,
               s\<lparr>stdout := stdout s @ [PredictionError (exn_str ev e)]\<rparr>)) \<and>
         (case predict_damage ev req s fs of
            (resp, fs', s') \<Rightarrow>
              ((\<exists>page. resp = EstimateHtml page) \<or>
               (\<exists>e. resp =
                  PredictHtml
                    \<lparr>brands = AVAILABLE_BRANDS s, prices_ctx = CAR_PRICES s,
                     error = Some (''An unexpected error occurred during analysis: ''
                                     @ exn_str ev e)\<rparr>)) \<and>
              (file_save_raises ev = None \<longrightarrow>
                 fs' (original_path ev file) = Some (stream file)))"
proof (intro conjI allI impI)
  fix e left assume "file_save_raises ev = Some (e, left)"
  with assms show "predict_damage ev req s fs =
      (PredictHtml
                 \<lparr>brands = AVAILABLE_BRANDS s, prices_ctx = CAR_PRICES s,
                  error = Some (''An unexpected error occurred during analysis: ''
                                  @ exn_str ev e)\<rparr>,
       partial_write fs (original_path ev file) left,
       s\<lparr>stdout := stdout s @ [PredictionError (exn_str ev e)]\<rparr>)"
    by (simp add: raise_in_file_save unexpected_error_def logged_error_def)
next
  fix e assume "file_save_raises ev = None \<and> model_call ev = Inl e"
  with assms show "predict_damage ev req s fs =
      (PredictHtml
                 \<lparr>brands = AVAILABLE_BRANDS s, prices_ctx = CAR_PRICES s,
                  error = Some (''An unexpected error occurred during analysis: ''
                                  @ exn_str ev e)\<rparr>,
       fs(original_path ev file \<mapsto> stream file),
       s\<lparr>stdout := stdout s @ [PredictionError (exn_str ev e)]\<rparr>)"
    by (simp add: raise_in_model_call unexpected_error_def logged_error_def)
next
  fix e left r rs
  assume "file_save_raises ev = None \<and> model_call ev = Inr (r # rs) \<and>
      boxes r \<noteq> [] \<and> result_save_raises ev = Some (e, left)"
  with assms show "predict_damage ev req s fs =
      (PredictHtml
                 \<lparr>brands = AVAILABLE_BRANDS s, prices_ctx = CAR_PRICES s,
                  error = Some (''An unexpected error occurred during analysis: ''
                                  @ exn_str ev e)\<rparr>,
       partial_write (fs(original_path ev file \<mapsto> stream file)) (detected_path ev file) left,
       s\<lparr>stdout := stdout s @ [PredictionError (exn_str ev e)]\<rparr>)"
    by (simp add: raise_in_result_save unexpected_error_def logged_error_def)
next
  fix e r rs s1 cc
  assume "file_save_raises ev = None \<and> model_call ev = Inr (r # rs) \<and>
      boxes r \<noteq> [] \<and> result_save_raises ev = None \<and>
      calculate_prices s b m (Counter (boxes r)) = (Inl e, s1, cc)"
  with assms show "predict_damage ev req s fs =
      (PredictHtml
                 \<lparr>brands = AVAILABLE_BRANDS s, prices_ctx = CAR_PRICES s,
                  error = Some (''An unexpected error occurred during analysis: ''
                                  @ exn_str ev e)\<rparr>,
       fs(original_path ev file \<mapsto> stream file, detected_path ev file \<mapsto> annotated r),
       s1\<lparr>stdout := stdout s1 @ [PredictionError (exn_str ev e)]\<rparr>)"
    by (simp add: raise_in_calculate_prices unexpected_error_def logged_error_def)
next
  fix e left results
  assume "file_save_raises ev = None \<and> model_call ev = Inr results \<and>
      no_detections results \<and> copyfile_raises ev = Some (e, left)"
  with assms show "predict_damage ev req s fs =
      (PredictHtml
                 \<lparr>brands = AVAILABLE_BRANDS s, prices_ctx = CAR_PRICES s,
                  error = Some (''An unexpected error occurred during analysis: ''
                                  @ exn_str ev e)\<rparr>,
       partial_write (fs(original_path ev file \<mapsto> stream file)) (detected_path ev file) left,
       s\<lparr>stdout := stdout s @ [PredictionError (exn_str ev e)]\<rparr>)"
    by (simp add: raise_in_copyfile unexpected_error_def logged_error_def)
next
  obtain r fs1 s1 where
    an: "analysis ev s fs file b m (original_name ev file) (detected_name ev file) = (r, fs1, s1)"
    by (cases "analysis ev s fs file b m (original_name ev file) (detected_name ev file)")
  from analysis_outcome[OF an] analysis_keeps_original[OF _ an]
  show "case predict_damage ev req s fs of
      (resp, fs', s') \<Rightarrow>
        ((\<exists>page. resp = EstimateHtml page) \<or>
         (\<exists>e. resp =
            PredictHtml
              \<lparr>brands = AVAILABLE_BRANDS s, prices_ctx = CAR_PRICES s,
               error = Some (''An unexpected error occurred during analysis: ''
                               @ exn_str ev e)\<rparr>)) \<and>
        (file_save_raises ev = None \<longrightarrow> fs' (original_path ev file) = Some (stream file))"
    by (auto simp: predict_damage_validated[OF assms] an unexpected_error_def)
qed

lemma demo_validated:
  "validated demo_env (demo_request ''car.JPG'') demo_state demo_file ''Tata'' ''Nexon''"
  by (simp add: validated_def demo_env_def demo_request_def demo_state_def demo_file_def
      initial_state_def jpg_allowed)

lemma nan_counts_raise:
  "calculate_prices demo_state ''Tata'' ''Nexon'' (Counter [FloatId 0, NanId]) =
     (Inl ValueError, demo_state, [(FloatId 0, 1), (NanId, 1)])"
  by (simp add: calculate_prices_def demo_state_def demo_table_def initial_state_def
      Counter_def get_part_name_from_id_def lookup_class_name_def
      py_getitem_def class_names_def py_trunc_def)

lemma demo_paths:
  "original_path ev demo_file =
     ''static/uploads/original_'' @ urandom_hex ev @ ''_'' @ secure_filename ev ''car.JPG''"
  "detected_path ev demo_file =
     ''static/uploads/detected_'' @ urandom_hex ev @ ''_'' @ secure_filename ev ''car.JPG''"
  by (simp_all add: original_path_def detected_path_def original_name_def detected_name_def
      path_join_def UPLOAD_FOLDER_def demo_file_def)

theorem predict_damage_exception_boundary_witness:
  "predict_damage failing_env (demo_request ''car.JPG'') demo_state Map.empty =
     (PredictHtml
        \<lparr>brands = [], prices_ctx = demo_table,
         error = Some ''An unexpected error occurred during analysis: CUDA out of memory''\<rparr>,
      [''static/uploads/original_00ff00ff00ff00ff_car.JPG'' \<mapsto> ''IMAGE''],
      demo_state\<lparr>stdout := [PredictionError ''CUDA out of memory'']\<rparr>) \<and>
   predict_damage nan_env (demo_request ''car.JPG'') demo_state Map.empty =
     (PredictHtml
        \<lparr>brands = [], prices_ctx = demo_table,
         error = Some (''An unexpected error occurred during analysis: ''
                         @ ''cannot convert float NaN to integer'')\<rparr>,
      [''static/uploads/original_00ff00ff00ff00ff_car.JPG'' \<mapsto> ''IMAGE'',
       ''static/uploads/detected_00ff00ff00ff00ff_car.JPG'' \<mapsto> ''ANNOTATED''],
      demo_state\<lparr>stdout := [PredictionError ''cannot convert float NaN to integer'']\<rparr>) \<and>
   predict_damage disk_full_env (demo_request ''car.JPG'') demo_state Map.empty =
     (PredictHtml
        \<lparr>brands = [], prices_ctx = demo_table,
         error = Some (''An unexpected error occurred during analysis: ''
                         @ ''No space left on device'')\<rparr>,
      [''static/uploads/original_00ff00ff00ff00ff_car.JPG'' \<mapsto> ''IMAGE'',
       ''static/uploads/detected_00ff00ff00ff00ff_car.JPG'' \<mapsto> ''ANNO''],
      demo_state\<lparr>stdout := [PredictionError ''No space left on device'']\<rparr>)"
proof -
  have v1: "validated failing_env (demo_request ''car.JPG'') demo_state demo_file ''Tata'' ''Nexon''"
    using demo_validated by (simp add: validated_def failing_env_def)
  have v2: "validated nan_env (demo_request ''car.JPG'') demo_state demo_file ''Tata'' ''Nexon''"
    using demo_validated by (simp add: validated_def nan_env_def)
  have v3: "validated disk_full_env (demo_request ''car.JPG'') demo_state demo_file ''Tata'' ''Nexon''"
    using demo_validated by (simp add: validated_def disk_full_env_def)
  have 1: "file_save_raises failing_env = None \<and>
      model_call failing_env = Inl (OtherException ''RuntimeError'')"
    by (simp add: failing_env_def demo_env_def)
  have 2: "file_save_raises nan_env = None \<and>
      model_call nan_env = Inr [\<lparr>boxes = [FloatId 0, NanId], annotated = ''ANNOTATED''\<rparr>] \<and>
      boxes \<lparr>boxes = [FloatId 0, NanId], annotated = ''ANNOTATED''\<rparr> \<noteq> [] \<and>
      result_save_raises nan_env = None \<and>
      calculate_prices demo_state ''Tata'' ''Nexon''
        (Counter (boxes \<lparr>boxes = [FloatId 0, NanId], annotated = ''ANNOTATED''\<rparr>)) =
        (Inl ValueError, demo_state, [(FloatId 0, 1), (NanId, 1)])"
    by (simp add: nan_env_def demo_env_def nan_counts_raise)
  have 3: "file_save_raises disk_full_env = None \<and>
      model_call disk_full_env = Inr [\<lparr>boxes = [FloatId 1], annotated = ''ANNOTATED''\<rparr>] \<and>
      boxes \<lparr>boxes = [FloatId 1], annotated = ''ANNOTATED''\<rparr> \<noteq> [] \<and>
      result_save_raises disk_full_env = Some (OtherException ''OSError'', Some ''ANNO'')"
    by (simp add: disk_full_env_def demo_env_def)
  have st: "AVAILABLE_BRANDS demo_state = []" "CAR_PRICES demo_state = demo_table"
    "stdout demo_state = []" "stream demo_file = ''IMAGE''"
    by (simp_all add: demo_state_def initial_state_def demo_file_def)
  have paths:
    "original_path failing_env demo_file = ''static/uploads/original_00ff00ff00ff00ff_car.JPG''"
    "original_path nan_env demo_file = ''static/uploads/original_00ff00ff00ff00ff_car.JPG''"
    "detected_path nan_env demo_file = ''static/uploads/detected_00ff00ff00ff00ff_car.JPG''"
    "original_path disk_full_env demo_file = ''static/uploads/original_00ff00ff00ff00ff_car.JPG''"
    "detected_path disk_full_env demo_file = ''static/uploads/detected_00ff00ff00ff00ff_car.JPG''"
    by (simp_all add: demo_paths failing_env_def nan_env_def disk_full_env_def demo_env_def)
  have texts:
    "exn_str failing_env (OtherException ''RuntimeError'') = ''CUDA out of memory''"
    "exn_str nan_env ValueError = ''cannot convert float NaN to integer''"
    "exn_str disk_full_env (OtherException ''OSError'') = ''No space left on device''"
    by (simp_all add: failing_env_def nan_env_def disk_full_env_def demo_env_def demo_exn_str_def)
  from predict_damage_exception_boundary[OF v1, of Map.empty] 1
  have "predict_damage failing_env (demo_request ''car.JPG'') demo_state Map.empty =
     (PredictHtml
        \<lparr>brands = AVAILABLE_BRANDS demo_state, prices_ctx = CAR_PRICES demo_state,
         error = Some (''An unexpected error occurred during analysis: ''
                         @ exn_str failing_env (OtherException ''RuntimeError''))\<rparr>,
      [original_path failing_env demo_file \<mapsto> stream demo_file],
      demo_state\<lparr>stdout := stdout demo_state @
         [PredictionError (exn_str failing_env (OtherException ''RuntimeError''))]\<rparr>)"
    by blast
  then have a: "predict_damage failing_env (demo_request ''car.JPG'') demo_state Map.empty =
     (PredictHtml
        \<lparr>brands = [], prices_ctx = demo_table,
         error = Some ''An unexpected error occurred during analysis: CUDA out of memory''\<rparr>,
      [''static/uploads/original_00ff00ff00ff00ff_car.JPG'' \<mapsto> ''IMAGE''],
      demo_state\<lparr>stdout := [PredictionError ''CUDA out of memory'']\<rparr>)"
    by (simp add: st paths texts)
  from predict_damage_exception_boundary[OF v2, of Map.empty] 2
  have "predict_damage nan_env (demo_request ''car.JPG'') demo_state Map.empty =
     (PredictHtml
        \<lparr>brands = AVAILABLE_BRANDS demo_state, prices_ctx = CAR_PRICES demo_state,
         error = Some (''An unexpected error occurred during analysis: ''
                         @ exn_str nan_env ValueError)\<rparr>,
      [original_path nan_env demo_file \<mapsto> stream demo_file,
       detected_path nan_env demo_file \<mapsto>
         annotated \<lparr>boxes = [FloatId 0, NanId], annotated = ''ANNOTATED''\<rparr>],
      demo_state\<lparr>stdout := stdout demo_state @
         [PredictionError (exn_str nan_env ValueError)]\<rparr>)"
    by blast
  then have b: "predict_damage nan_env (demo_request ''car.JPG'') demo_state Map.empty =
     (PredictHtml
        \<lparr>brands = [], prices_ctx = demo_table,
         error = Some (''An unexpected error occurred during analysis: ''
                         @ ''cannot convert float NaN to integer'')\<rparr>,
      [''static/uploads/original_00ff00ff00ff00ff_car.JPG'' \<mapsto> ''IMAGE'',
       ''static/uploads/detected_00ff00ff00ff00ff_car.JPG'' \<mapsto> ''ANNOTATED''],
      demo_state\<lparr>stdout := [PredictionError ''cannot convert float NaN to integer'']\<rparr>)"
    by (simp add: st paths texts)
  from predict_damage_exception_boundary[OF v3, of Map.empty] 3
  have "predict_damage disk_full_env (demo_request ''car.JPG'') demo_state Map.empty =
     (PredictHtml
        \<lparr>brands = AVAILABLE_BRANDS demo_state, prices_ctx = CAR_PRICES demo_state,
         error = Some (''An unexpected error occurred during analysis: ''
                         @ exn_str disk_full_env (OtherException ''OSError''))\<rparr>,
      partial_write [original_path disk_full_env demo_file \<mapsto> stream demo_file]
        (detected_path disk_full_env demo_file) (Some ''ANNO''),
      demo_state\<lparr>stdout := stdout demo_state @
         [PredictionError (exn_str disk_full_env (OtherException ''OSError''))]\<rparr>)"
    by blast
  then have c: "predict_damage disk_full_env (demo_request ''car.JPG'') demo_state Map.empty =
     (PredictHtml
        \<lparr>brands = [], prices_ctx = demo_table,
         error = Some (''An unexpected error occurred during analysis: ''
                         @ ''No space left on device'')\<rparr>,
      [''static/uploads/original_00ff00ff00ff00ff_car.JPG'' \<mapsto> ''IMAGE'',
       ''static/uploads/detected_00ff00ff00ff00ff_car.JPG'' \<mapsto> ''ANNO''],
      demo_state\<lparr>stdout := [PredictionError ''No space left on device'']\<rparr>)"
    by (simp add: st paths texts partial_write_def)
  from a b c show ?thesis by simp
qed

subsection \<open>No detections\<close>

text \<open>
  Claim C7.  For a validated upload on which saving, the model call and the copy do not
  raise and the detection run finds nothing, the handler answers with the estimate page:
  the price breakdown is empty, the file under the original path and the file under the
  annotated path both hold the uploaded bytes, and the two URLs of the page are served
  from these two files.
\<close>
theorem predict_damage_no_detections_copies_original:
  assumes "validated ev req s file b m"
    and "file_save_raises ev = None" and "model_call ev = Inr results"
    and "no_detections results" and "copyfile_raises ev = None"
  shows "\<exists>page fs'. predict_damage ev req s fs = (EstimateHtml page, fs', s) \<and>
      original_image page = ''/static/uploads/'' @ original_name ev file \<and>
      detected_image page = ''/static/uploads/'' @ detected_name ev file \<and>
      part_prices page = [] \<and> car_info_brand page = b \<and> car_info_model page = m \<and>
      fs' = fs(''static/uploads/'' @ original_name ev file \<mapsto> stream file,
               ''static/uploads/'' @ detected_name ev file \<mapsto> stream file) \<and>
      static_file fs' (original_image page) = Some (stream file) \<and>
      static_file fs' (detected_image page) = Some (stream file)"
  using assms image_paths_differ[of ev "file"]
  by (auto simp: predict_damage_validated analysis_def Let_def no_detections_def copyfile_def
      path_join_def UPLOAD_FOLDER_def url_for_static_def static_file_def
      split: list.splits)

theorem predict_damage_no_detections_copies_original_witness:
  "\<exists>page fs'. predict_damage demo_env (demo_request ''car.JPG'') demo_state Map.empty =
       (EstimateHtml page, fs', demo_state) \<and>
     original_image page = ''/static/uploads/original_00ff00ff00ff00ff_car.JPG'' \<and>
     detected_image page = ''/static/uploads/detected_00ff00ff00ff00ff_car.JPG'' \<and>
     part_prices page = [] \<and>
     static_file fs' (original_image page) = Some ''IMAGE'' \<and>
     static_file fs' (detected_image page) = Some ''IMAGE''"
proof -
  have 1: "file_save_raises demo_env = None"
    and 2: "model_call demo_env = Inr [\<lparr>boxes = [], annotated = ''ANNOTATED''\<rparr>]"
    and 3: "no_detections [\<lparr>boxes = [], annotated = ''ANNOTATED''\<rparr>]"
    and 4: "copyfile_raises demo_env = None"
    by (simp_all add: demo_env_def no_detections_def)
  from predict_damage_no_detections_copies_original[OF demo_validated 1 2 3 4, of Map.empty]
  obtain page fs' where
    "predict_damage demo_env (demo_request ''car.JPG'') demo_state Map.empty =
       (EstimateHtml page, fs', demo_state)"
    "original_image page = ''/static/uploads/'' @ original_name demo_env demo_file"
    "detected_image page = ''/static/uploads/'' @ detected_name demo_env demo_file"
    "part_prices page = []"
    "static_file fs' (original_image page) = Some (stream demo_file)"
    "static_file fs' (detected_image page) = Some (stream demo_file)"
    by blast
  then show ?thesis
    by (intro exI[of _ page] exI[of _ fs'])
       (simp add: original_name_def detected_name_def demo_env_def demo_file_def)
qed

end
